theory Spec2Isabelle
  imports Main "HOL-Library.AList"
begin

section \<open>The presence and group registry of the chat hub\<close>

text \<open>
  The registry is the class \<open>EventsService\<close> of \<open>src/events/events.service.ts\<close>; the
  fan-out rules are the handlers of \<open>EventsGateway\<close> (\<open>events.gateway.ts\<close>).

  A JavaScript \<open>Map\<close> keeps its keys in insertion order, so each of the four maps of the
  service is an association list: \<open>m.get(k)\<close> is \<^term>\<open>map_of m k\<close>, \<open>m.has(k)\<close> is
  \<^term>\<open>map_of m k \<noteq> None\<close>, \<open>m.set(k, v)\<close> is \<^term>\<open>AList.update k v m\<close> (the value
  is replaced in place when the key is present, the pair is appended when it is not) and
  \<open>m.delete(k)\<close> is \<^term>\<open>AList.delete k m\<close>. Arrays are lists; \<open>push\<close> appends.
  A thrown \<open>Error\<close> is a value \<open>Inl (Error message)\<close>. Every method takes
  the service's state and returns the new one.
\<close>

subsection \<open>Data model\<close>

type_synonym ('k, 'v) Map = "('k \<times> 'v) list"

record User =
  clientId :: string
  username :: string

record ChatGroup =
  id' :: string
  name :: string
  createdBy :: string
  members :: "string list"

record EventsService =
  users :: "(string, string) Map"
  userObjects :: "(string, User) Map"
  groups :: "(string, ChatGroup) Map"
  clientGroups :: "(string, string list) Map"

datatype error = Error string

text \<open>The state of a freshly constructed service: four empty maps.\<close>

definition new_EventsService :: EventsService where
  "new_EventsService = \<lparr>users = [], userObjects = [], groups = [], clientGroups = []\<rparr>"

text \<open>
  \<open>this.clientGroups.get(clientId) || []\<close>: an array is truthy even when it is empty, so
  the right operand is taken only when the key is absent.
\<close>

definition or_empty :: "'a list option \<Rightarrow> 'a list" where
  "or_empty v = (case v of None \<Rightarrow> [] | Some xs \<Rightarrow> xs)"

subsection \<open>The methods of EventsService\<close>

definition addUser :: "EventsService \<Rightarrow> string \<Rightarrow> string \<Rightarrow> EventsService" where
  "addUser s cid uname =
     s\<lparr>users := AList.update cid uname (users s),
       userObjects := AList.update cid \<lparr>clientId = cid, username = uname\<rparr> (userObjects s),
       clientGroups := AList.update cid [] (clientGroups s)\<rparr>"

text \<open>
  The body of the \<open>forEach\<close> of \<open>removeUser\<close>: the group, when it is stored, gets a
  member list without the client. The object is changed in place, so it keeps its position
  in the map.
\<close>

definition remove_member :: "string \<Rightarrow> string \<Rightarrow> (string, ChatGroup) Map \<Rightarrow> (string, ChatGroup) Map" where
  "remove_member cid groupId gs =
     (case map_of gs groupId of
        None \<Rightarrow> gs
      | Some grp \<Rightarrow>
          AList.update groupId (grp\<lparr>members := filter (\<lambda>i. i \<noteq> cid) (members grp)\<rparr>) gs)"

definition removeUser :: "EventsService \<Rightarrow> string \<Rightarrow> EventsService" where
  "removeUser s cid =
     (let userGroups = or_empty (map_of (clientGroups s) cid)
      in s\<lparr>users := AList.delete cid (users s),
           userObjects := AList.delete cid (userObjects s),
           groups := fold (remove_member cid) userGroups (groups s),
           clientGroups := AList.delete cid (clientGroups s)\<rparr>)"

definition getUser :: "EventsService \<Rightarrow> string \<Rightarrow> string option" where
  "getUser s cid = map_of (users s) cid"

definition getUserObject :: "EventsService \<Rightarrow> string \<Rightarrow> User option" where
  "getUserObject s cid = map_of (userObjects s) cid"

definition getAllUsers :: "EventsService \<Rightarrow> string list" where
  "getAllUsers s = map snd (users s)"

definition getAllUserObjects :: "EventsService \<Rightarrow> User list" where
  "getAllUserObjects s = map snd (userObjects s)"

definition createGroup ::
  "EventsService \<Rightarrow> string \<Rightarrow> string \<Rightarrow> string \<Rightarrow> error + (ChatGroup \<times> EventsService)" where
  "createGroup s groupId groupName creatorClientId =
     (if map_of (groups s) groupId \<noteq> None
      then Inl (Error (''Group with ID '' @ groupId @ '' already exists''))
      else
        let grp = \<lparr>id' = groupId, name = groupName, createdBy = creatorClientId,
                      members = [creatorClientId]\<rparr>;
            creatorGroups = or_empty (map_of (clientGroups s) creatorClientId)
        in Inr (grp,
                s\<lparr>groups := AList.update groupId grp (groups s),
                  clientGroups :=
                    AList.update creatorClientId (creatorGroups @ [groupId]) (clientGroups s)\<rparr>))"

definition joinGroup ::
  "EventsService \<Rightarrow> string \<Rightarrow> string \<Rightarrow> error + (ChatGroup \<times> EventsService)" where
  "joinGroup s groupId cid =
     (case map_of (groups s) groupId of
        None \<Rightarrow> Inl (Error (''Group with ID '' @ groupId @ '' not found''))
      | Some grp \<Rightarrow>
          if cid \<notin> set (members grp)
          then
            let grp' = grp\<lparr>members := members grp @ [cid]\<rparr>;
                userGroups = or_empty (map_of (clientGroups s) cid)
            in Inr (grp',
                    s\<lparr>groups := AList.update groupId grp' (groups s),
                      clientGroups := AList.update cid (userGroups @ [groupId]) (clientGroups s)\<rparr>)
          else Inr (grp, s))"

definition leaveGroup :: "EventsService \<Rightarrow> string \<Rightarrow> string \<Rightarrow> EventsService" where
  "leaveGroup s groupId cid =
     (case map_of (groups s) groupId of
        None \<Rightarrow> s
      | Some grp \<Rightarrow>
          let grp' = grp\<lparr>members := filter (\<lambda>i. i \<noteq> cid) (members grp)\<rparr>;
              gs = AList.update groupId grp' (groups s);
              gs' = (if length (members grp') = 0 then AList.delete groupId gs else gs);
              userGroups = or_empty (map_of (clientGroups s) cid)
          in s\<lparr>groups := gs',
               clientGroups :=
                 AList.update cid (filter (\<lambda>i. i \<noteq> groupId) userGroups) (clientGroups s)\<rparr>)"

definition getGroup :: "EventsService \<Rightarrow> string \<Rightarrow> ChatGroup option" where
  "getGroup s groupId = map_of (groups s) groupId"

definition getAllGroups :: "EventsService \<Rightarrow> ChatGroup list" where
  "getAllGroups s = map snd (groups s)"

definition getGroupMembers :: "EventsService \<Rightarrow> string \<Rightarrow> User list" where
  "getGroupMembers s groupId =
     (case map_of (groups s) groupId of
        None \<Rightarrow> []
      | Some grp \<Rightarrow>
          map the (filter (\<lambda>user. user \<noteq> None)
                     (map (\<lambda>cid. map_of (userObjects s) cid) (members grp))))"

definition getUserGroups :: "EventsService \<Rightarrow> string \<Rightarrow> ChatGroup list" where
  "getUserGroups s cid =
     (let groupIds = or_empty (map_of (clientGroups s) cid)
      in map the (filter (\<lambda>grp. grp \<noteq> None)
                    (map (\<lambda>groupId. map_of (groups s) groupId) groupIds)))"

subsection \<open>The message handlers of EventsGateway\<close>

text \<open>
  A handler sends with \<open>this.server.emit\<close> (every connection), with
  \<open>this.server.to(room).emit\<close> (a Socket.IO room: \<open>group:\<close> followed by the group id
  for a group, a client id for one connection) and by returning a \<open>WsResponse\<close>, which goes back to the
  requesting connection only. A handler of the model returns the deliveries in the order
  the code produces them, with the state of the service afterwards. The time stamp
  \<open>new Date().toISOString()\<close> is the parameter \<open>now\<close>.
\<close>

datatype target = All | To string | Requester

datatype payload =
    ErrorData string
  | Text string
  | UserNames "string list"
  | GroupData ChatGroup
  | GroupMessageData string string User string
  | PrivateMessageData string User User string

type_synonym delivery = "target \<times> string \<times> payload"

text \<open>
  \<open>handleDisconnect\<close> returns nothing. \<open>if (username)\<close> is false for \<open>undefined\<close> and for
  the empty string.
\<close>

definition handleDisconnect :: "EventsService \<Rightarrow> string \<Rightarrow> delivery list \<times> EventsService" where
  "handleDisconnect s client =
     (let username = getUser s client;
          s' = removeUser s client
      in ((All, ''users'', UserNames (getAllUsers s')) #
          (case username of
             None \<Rightarrow> []
           | Some u \<Rightarrow> if u \<noteq> [] then [(All, ''userLeft'', Text u)] else []),
          s'))"

text \<open>The \<open>catch\<close> of \<open>handleCreateGroup\<close> answers with the message of the error.\<close>

definition handleCreateGroup ::
  "EventsService \<Rightarrow> string \<Rightarrow> string \<Rightarrow> string \<Rightarrow> delivery list \<times> EventsService" where
  "handleCreateGroup s groupId groupName client =
     (case createGroup s groupId groupName client of
        Inl (Error m) \<Rightarrow> ([(Requester, ''error'', ErrorData m)], s)
      | Inr (grp, s') \<Rightarrow>
          ([(All, ''groupCreated'', GroupData grp), (Requester, ''groupCreated'', GroupData grp)], s'))"

definition handleGroupMessage ::
  "EventsService \<Rightarrow> string \<Rightarrow> string \<Rightarrow> string \<Rightarrow> string \<Rightarrow> delivery list \<times> EventsService" where
  "handleGroupMessage s groupId message client now =
     (case getUserObject s client of
        None \<Rightarrow> ([(Requester, ''error'', ErrorData ''User not found'')], s)
      | Some user \<Rightarrow>
          (case getGroup s groupId of
             None \<Rightarrow> ([(Requester, ''error'', ErrorData ''Group not found'')], s)
           | Some grp \<Rightarrow>
               if client \<notin> set (members grp)
               then ([(Requester, ''error'', ErrorData ''You are not a member of this group'')], s)
               else
                 let messageData = GroupMessageData groupId message user now
                 in ([(To (''group:'' @ groupId), ''groupMessage'', messageData),
                      (Requester, ''messageSent'', messageData)], s)))"

definition handlePrivateMessage ::
  "EventsService \<Rightarrow> string \<Rightarrow> string \<Rightarrow> string \<Rightarrow> string \<Rightarrow> delivery list \<times> EventsService" where
  "handlePrivateMessage s recipientClientId message client now =
     (let sender = getUserObject s client;
          recipient = getUserObject s recipientClientId
      in case sender of
           None \<Rightarrow> ([(Requester, ''error'', ErrorData ''Sender not found'')], s)
         | Some sender' \<Rightarrow>
             (case recipient of
                None \<Rightarrow> ([(Requester, ''error'', ErrorData ''Recipient not found'')], s)
              | Some recipient' \<Rightarrow>
                  let messageData = PrivateMessageData message sender' recipient' now
                  in ([(To recipientClientId, ''privateMessage'', messageData),
                       (Requester, ''privateMessageSent'', messageData)], s)))"

subsection \<open>Sequences of registry operations\<close>

text \<open>
  The five mutating methods as one type of operations. A call that throws has changed
  nothing before the \<open>throw\<close>, so it leaves the state as it was.
\<close>

datatype registry_op =
    AddUser string string
  | RemoveUser string
  | CreateGroup string string string
  | JoinGroup string string
  | LeaveGroup string string

fun apply_op :: "EventsService \<Rightarrow> registry_op \<Rightarrow> EventsService" where
  "apply_op s (AddUser cid uname) = addUser s cid uname"
| "apply_op s (RemoveUser cid) = removeUser s cid"
| "apply_op s (CreateGroup groupId groupName cid) =
     (case createGroup s groupId groupName cid of Inl e \<Rightarrow> s | Inr (grp, s') \<Rightarrow> s')"
| "apply_op s (JoinGroup groupId cid) =
     (case joinGroup s groupId cid of Inl e \<Rightarrow> s | Inr (grp, s') \<Rightarrow> s')"
| "apply_op s (LeaveGroup groupId cid) = leaveGroup s groupId cid"

definition run_ops :: "registry_op list \<Rightarrow> EventsService" where
  "run_ops ops = foldl apply_op new_EventsService ops"

subsection \<open>The invariants of the registry\<close>

text \<open>
  The groups a client is in according to the index \<open>clientGroups\<close>, read as every method
  reads it (a missing entry is the empty list).
\<close>

definition index_of :: "EventsService \<Rightarrow> string \<Rightarrow> string list" where
  "index_of s cid = or_empty (map_of (clientGroups s) cid)"

text \<open>
  The two sides of the membership relation agree on every stored group. A group is named
  here by the key it is stored under, which is what the index holds.
\<close>

definition bidirectional :: "EventsService \<Rightarrow> bool" where
  "bidirectional s \<longleftrightarrow>
     (\<forall>cid groupId grp. getGroup s groupId = Some grp \<longrightarrow>
        (cid \<in> set (members grp) \<longleftrightarrow> groupId \<in> set (index_of s cid)))"

text \<open>The index names stored groups only.\<close>

definition index_sound :: "EventsService \<Rightarrow> bool" where
  "index_sound s \<longleftrightarrow>
     (\<forall>cid groupId. groupId \<in> set (index_of s cid) \<longrightarrow> getGroup s groupId \<noteq> None)"

definition no_empty_group :: "EventsService \<Rightarrow> bool" where
  "no_empty_group s \<longleftrightarrow> (\<forall>groupId grp. getGroup s groupId = Some grp \<longrightarrow> members grp \<noteq> [])"

text \<open>The client is in none of the stored groups.\<close>

definition in_no_group :: "EventsService \<Rightarrow> string \<Rightarrow> bool" where
  "in_no_group s cid \<longleftrightarrow>
     (\<forall>groupId grp. getGroup s groupId = Some grp \<longrightarrow> cid \<notin> set (members grp))"

text \<open>
  Both directions at once: the index of a client holds exactly the stored groups that have
  the client among their members.
\<close>

definition consistent :: "EventsService \<Rightarrow> bool" where
  "consistent s \<longleftrightarrow>
     (\<forall>cid groupId. groupId \<in> set (index_of s cid) \<longleftrightarrow>
        (\<exists>grp. getGroup s groupId = Some grp \<and> cid \<in> set (members grp)))"

text \<open>
  A sequence of operations, run from the state \<open>s\<close>, in which \<open>addUser\<close> is only ever
  called for a client that is in no group at that moment.
\<close>

fun registers_outside_groups :: "EventsService \<Rightarrow> registry_op list \<Rightarrow> bool" where
  "registers_outside_groups s [] = True"
| "registers_outside_groups s (op # ops) =
     ((case op of AddUser cid uname \<Rightarrow> in_no_group s cid | _ \<Rightarrow> True) \<and>
      registers_outside_groups (apply_op s op) ops)"

section \<open>Properties\<close>

text \<open>The defining equations used to run the methods on concrete states.\<close>

lemmas registry_defs =
  run_ops_def new_EventsService_def addUser_def removeUser_def createGroup_def joinGroup_def
  leaveGroup_def getGroup_def getUser_def getUserObject_def getGroupMembers_def
  getUserGroups_def remove_member_def or_empty_def index_of_def Let_def

subsection \<open>What each method does to the two lookups\<close>

text \<open>
  Every property below is about \<open>getGroup\<close> and about the index read with its default,
  so each mutating method is first described by its effect on these two.
\<close>

lemma or_empty_simps [simp]: "or_empty None = []" "or_empty (Some xs) = xs"
  by (simp_all add: or_empty_def)

lemma map_of_remove_member:
  "map_of (remove_member c g gs) g' =
     (if g' = g then map_option (\<lambda>grp. grp\<lparr>members := filter (\<lambda>i. i \<noteq> c) (members grp)\<rparr>) (map_of gs g)
      else map_of gs g')"
  by (simp add: remove_member_def update_conv' split: option.splits)

lemma map_of_fold_remove_member:
  "map_of (fold (remove_member c) gids gs) g' =
     (if g' \<in> set gids
      then map_option (\<lambda>grp. grp\<lparr>members := filter (\<lambda>i. i \<noteq> c) (members grp)\<rparr>) (map_of gs g')
      else map_of gs g')"
proof (induction gids arbitrary: gs)
  case Nil
  then show ?case by simp
next
  case (Cons g gids)
  show ?case
    by (cases "map_of gs g'") (auto simp add: Cons.IH map_of_remove_member)
qed

lemma getGroup_removeUser:
  "getGroup (removeUser s c) g =
     (if g \<in> set (index_of s c)
      then map_option (\<lambda>grp. grp\<lparr>members := filter (\<lambda>i. i \<noteq> c) (members grp)\<rparr>) (getGroup s g)
      else getGroup s g)"
  by (simp add: removeUser_def getGroup_def index_of_def Let_def map_of_fold_remove_member)

lemma index_of_removeUser:
  "index_of (removeUser s c) c' = (if c' = c then [] else index_of s c')"
  by (simp add: removeUser_def index_of_def Let_def delete_conv' or_empty_def)

lemma getGroup_addUser: "getGroup (addUser s c n) g = getGroup s g"
  by (simp add: addUser_def getGroup_def)

lemma index_of_addUser:
  "index_of (addUser s c n) c' = (if c' = c then [] else index_of s c')"
  by (simp add: addUser_def index_of_def update_conv' or_empty_def)


lemma getGroup_createGroup:
  "createGroup s g n c = Inr (grp, s') \<Longrightarrow>
     getGroup s g = None \<and> members grp = [c] \<and>
     getGroup s' g' = (if g' = g then Some grp else getGroup s g')"
  by (auto simp: createGroup_def getGroup_def Let_def update_conv' split: if_splits)

lemma index_of_createGroup:
  "createGroup s g n c = Inr (grp, s') \<Longrightarrow>
     index_of s' c' = (if c' = c then index_of s c @ [g] else index_of s c')"
  by (auto simp: createGroup_def index_of_def Let_def update_conv' or_empty_def split: if_splits)

lemma joinGroup_Inr:
  assumes j: "joinGroup s g c = Inr (grp, s')"
  obtains grp0 where "getGroup s g = Some grp0"
    and "members grp = (if c \<in> set (members grp0) then members grp0 else members grp0 @ [c])"
    and "\<And>g'. getGroup s' g' = (if g' = g then Some grp else getGroup s g')"
    and "\<And>c'. index_of s' c' =
           (if c' = c \<and> c \<notin> set (members grp0) then index_of s c @ [g] else index_of s c')"
proof -
  from j obtain grp0 where g0: "map_of (groups s) g = Some grp0"
    by (cases "map_of (groups s) g") (simp_all add: joinGroup_def)
  show thesis
  proof (cases "c \<in> set (members grp0)")
    case True
    with j g0 have "grp = grp0" and "s' = s"
      by (simp_all add: joinGroup_def)
    with g0 True that [of grp0] show thesis
      by (simp add: getGroup_def)
  next
    case False
    with j g0 have grp: "grp = grp0\<lparr>members := members grp0 @ [c]\<rparr>"
      and s': "s' = s\<lparr>groups := AList.update g grp (groups s),
                      clientGroups := AList.update c (index_of s c @ [g]) (clientGroups s)\<rparr>"
      by (auto simp add: joinGroup_def Let_def index_of_def)
    have "\<And>g'. getGroup s' g' = (if g' = g then Some grp else getGroup s g')"
      by (simp add: s' getGroup_def update_conv')
    moreover have "\<And>c'. index_of s' c' = (if c' = c then index_of s c @ [g] else index_of s c')"
      by (simp add: s' index_of_def update_conv')
    ultimately show thesis
      using that [of grp0] g0 False grp by (simp add: getGroup_def)
  qed
qed

lemma getGroup_leaveGroup:
  "getGroup (leaveGroup s g c) g' =
     (if g' = g
      then (case getGroup s g of
              None \<Rightarrow> None
            | Some grp \<Rightarrow>
                if filter (\<lambda>i. i \<noteq> c) (members grp) = [] then None
                else Some (grp\<lparr>members := filter (\<lambda>i. i \<noteq> c) (members grp)\<rparr>))
      else getGroup s g')"
  by (simp add: leaveGroup_def getGroup_def Let_def update_conv' delete_conv' split: option.splits)

lemma index_of_leaveGroup:
  "index_of (leaveGroup s g c) c' =
     (if c' = c \<and> getGroup s g \<noteq> None then filter (\<lambda>i. i \<noteq> g) (index_of s c)
      else index_of s c')"
  by (auto simp: leaveGroup_def getGroup_def index_of_def Let_def update_conv' or_empty_def
        split: option.splits)

lemma leaveGroup_absent: "getGroup s g = None \<Longrightarrow> leaveGroup s g c = s"
  by (simp add: leaveGroup_def getGroup_def)

lemma users_leaveGroup:
  "users (leaveGroup s g c) = users s" "userObjects (leaveGroup s g c) = userObjects s"
  by (simp_all add: leaveGroup_def Let_def split: option.splits)

lemma leaveGroup_non_member_same:
  assumes g: "getGroup s g = Some grp"
    and nm: "c \<notin> set (members grp)"
    and ne: "members grp \<noteq> []"
    and e: "map_of (clientGroups s) c \<noteq> None"
    and ni: "g \<notin> set (index_of s c)"
  shows "leaveGroup s g c = s"
proof -
  from e obtain xs where xs: "map_of (clientGroups s) c = Some xs"
    by auto
  from nm have m: "filter (\<lambda>i. i \<noteq> c) (members grp) = members grp"
    by (auto simp add: filter_id_conv)
  from ni xs have x: "filter (\<lambda>i. i \<noteq> g) xs = xs"
    by (auto simp add: filter_id_conv index_of_def)
  from g have "map_of (groups s) g = Some grp"
    by (simp add: getGroup_def)
  with ne show ?thesis
    by (simp add: leaveGroup_def Let_def m xs x update_triv)
qed

subsection \<open>The membership invariant, method by method\<close>

text \<open>
  The two sides of the index agree in the fresh registry, and \<open>removeUser\<close>,
  \<open>createGroup\<close>, \<open>joinGroup\<close> and \<open>leaveGroup\<close> keep them in agreement. \<open>addUser\<close>
  keeps them in agreement when the client is in no group.
\<close>

lemma consistent_iff: "consistent s \<longleftrightarrow> bidirectional s \<and> index_sound s"
proof
  assume c: "consistent s"
  have "bidirectional s"
    unfolding bidirectional_def
  proof (intro allI impI)
    fix cid groupId grp
    assume "getGroup s groupId = Some grp"
    with c show "cid \<in> set (members grp) \<longleftrightarrow> groupId \<in> set (index_of s cid)"
      by (simp add: consistent_def)
  qed
  moreover have "index_sound s"
    using c by (auto simp: index_sound_def consistent_def)
  ultimately show "bidirectional s \<and> index_sound s" ..
next
  assume b: "bidirectional s \<and> index_sound s"
  show "consistent s"
    unfolding consistent_def
  proof (intro allI iffI)
    fix cid groupId
    assume i: "groupId \<in> set (index_of s cid)"
    with b obtain grp where g: "getGroup s groupId = Some grp"
      by (auto simp: index_sound_def)
    with b i have "cid \<in> set (members grp)"
      by (simp add: bidirectional_def)
    with g show "\<exists>grp. getGroup s groupId = Some grp \<and> cid \<in> set (members grp)"
      by blast
  next
    fix cid groupId
    assume "\<exists>grp. getGroup s groupId = Some grp \<and> cid \<in> set (members grp)"
    with b show "groupId \<in> set (index_of s cid)"
      by (auto simp: bidirectional_def)
  qed
qed

lemma consistent_new: "consistent new_EventsService"
  by (simp add: consistent_def new_EventsService_def index_of_def getGroup_def or_empty_def)

lemma consistent_addUser:
  assumes "consistent s" and "in_no_group s c"
  shows "consistent (addUser s c n)"
  using assms unfolding consistent_def in_no_group_def
  by (auto simp: getGroup_addUser index_of_addUser)

lemma consistent_removeUser:
  assumes "consistent s"
  shows "consistent (removeUser s c)"
  using assms unfolding consistent_def
  by (auto simp: getGroup_removeUser index_of_removeUser)

lemma consistent_createGroup:
  assumes "consistent s" and "createGroup s g n c = Inr (grp, s')"
  shows "consistent s'"
  using assms(1) getGroup_createGroup [OF assms(2)] index_of_createGroup [OF assms(2)]
  unfolding consistent_def by auto

lemma consistent_joinGroup:
  assumes "consistent s" and "joinGroup s g c = Inr (grp, s')"
  shows "consistent s'"
  using assms(2)
proof (rule joinGroup_Inr)
  fix grp0
  assume g0: "getGroup s g = Some grp0"
    and m: "members grp = (if c \<in> set (members grp0) then members grp0 else members grp0 @ [c])"
    and gg: "\<And>g'. getGroup s' g' = (if g' = g then Some grp else getGroup s g')"
    and ix: "\<And>c'. index_of s' c' =
         (if c' = c \<and> c \<notin> set (members grp0) then index_of s c @ [g] else index_of s c')"
  show ?thesis
    using assms(1) g0 m unfolding consistent_def by (auto simp: gg ix)
qed

lemma consistent_leaveGroup:
  assumes "consistent s"
  shows "consistent (leaveGroup s g c)"
  using assms unfolding consistent_def
  by (auto simp: getGroup_leaveGroup index_of_leaveGroup filter_empty_conv split: option.splits)

lemma consistent_apply_op:
  assumes "consistent s" and "case op of AddUser c n \<Rightarrow> in_no_group s c | _ \<Rightarrow> True"
  shows "consistent (apply_op s op)"
proof (cases op)
  case (AddUser c n)
  with assms show ?thesis by (simp add: consistent_addUser)
next
  case (RemoveUser c)
  with assms show ?thesis by (simp add: consistent_removeUser)
next
  case (CreateGroup g n c)
  with assms show ?thesis
    by (auto split: sum.splits dest: consistent_createGroup)
next
  case (JoinGroup g c)
  with assms show ?thesis
    by (auto split: sum.splits dest: consistent_joinGroup)
next
  case (LeaveGroup g c)
  with assms show ?thesis by (simp add: consistent_leaveGroup)
qed

lemma consistent_foldl:
  "consistent s \<Longrightarrow> registers_outside_groups s ops \<Longrightarrow> consistent (foldl apply_op s ops)"
proof (induction ops arbitrary: s)
  case Nil
  then show ?case by simp
next
  case (Cons op ops)
  then show ?case by (simp add: consistent_apply_op)
qed

lemma bidirectional_run_ops:
  "registers_outside_groups new_EventsService ops \<Longrightarrow> bidirectional (run_ops ops)"
  using consistent_foldl [OF consistent_new] by (simp add: run_ops_def consistent_iff)

lemma removeUser_leaves_all_groups:
  "bidirectional s \<Longrightarrow> in_no_group (removeUser s c) c"
  unfolding bidirectional_def in_no_group_def
  by (auto simp: getGroup_removeUser split: if_splits)

subsection \<open>Groups without members, method by method\<close>

text \<open>
  \<open>addUser\<close>, \<open>createGroup\<close>, \<open>joinGroup\<close> and \<open>leaveGroup\<close> never leave a stored group
  without members when there was none before.
\<close>

lemma no_empty_group_addUser: "no_empty_group s \<Longrightarrow> no_empty_group (addUser s c n)"
  by (simp add: no_empty_group_def getGroup_addUser)

lemma no_empty_group_createGroup:
  "no_empty_group s \<Longrightarrow> createGroup s g n c = Inr (grp, s') \<Longrightarrow> no_empty_group s'"
  using getGroup_createGroup [of s g n c grp s']
  by (auto simp: no_empty_group_def split: if_splits)

lemma no_empty_group_joinGroup:
  assumes "no_empty_group s" and "joinGroup s g c = Inr (grp, s')"
  shows "no_empty_group s'"
  using assms(2)
proof (rule joinGroup_Inr)
  fix grp0
  assume g0: "getGroup s g = Some grp0"
    and m: "members grp = (if c \<in> set (members grp0) then members grp0 else members grp0 @ [c])"
    and gg: "\<And>g'. getGroup s' g' = (if g' = g then Some grp else getGroup s g')"
  from assms(1) g0 have "members grp0 \<noteq> []"
    by (simp add: no_empty_group_def)
  with m have "members grp \<noteq> []"
    by (simp split: if_splits)
  with assms(1) show ?thesis
    by (auto simp: no_empty_group_def gg split: if_splits)
qed

lemma no_empty_group_leaveGroup: "no_empty_group s \<Longrightarrow> no_empty_group (leaveGroup s g c)"
  by (auto simp: no_empty_group_def getGroup_leaveGroup split: if_splits option.splits)


subsection \<open>createGroup and getGroup\<close>

text \<open>
  C5. \<open>createGroup\<close> throws the "already exists" error exactly when the group id is
  stored; otherwise it succeeds, returns the group with the given id and name, created by
  the caller and with the caller as its only member, and \<open>getGroup\<close> on the resulting
  state returns exactly that group.
\<close>

theorem createGroup_round_trip:
  "(getGroup s gid \<noteq> None \<longrightarrow>
      createGroup s gid nm c = Inl (Error (''Group with ID '' @ gid @ '' already exists''))) \<and>
   (getGroup s gid = None \<longrightarrow>
      (\<exists>s'. createGroup s gid nm c =
               Inr (\<lparr>id' = gid, name = nm, createdBy = c, members = [c]\<rparr>, s') \<and>
            getGroup s' gid = Some \<lparr>id' = gid, name = nm, createdBy = c, members = [c]\<rparr>))"
  by (simp add: createGroup_def getGroup_def Let_def update_conv')

theorem createGroup_round_trip_witness:
  "getGroup (run_ops []) ''g1'' = None \<and>
   (\<exists>s'. createGroup (run_ops []) ''g1'' ''Team'' ''c1'' =
            Inr (\<lparr>id' = ''g1'', name = ''Team'', createdBy = ''c1'', members = [''c1'']\<rparr>, s') \<and>
         getGroup s' ''g1'' =
            Some \<lparr>id' = ''g1'', name = ''Team'', createdBy = ''c1'', members = [''c1'']\<rparr>) \<and>
   getGroup (run_ops [CreateGroup ''g1'' ''Team'' ''c1'']) ''g1'' \<noteq> None \<and>
   createGroup (run_ops [CreateGroup ''g1'' ''Team'' ''c1'']) ''g1'' ''Other'' ''c2'' =
     Inl (Error ''Group with ID g1 already exists'')"
  using createGroup_round_trip [of "run_ops []" "''g1''" "''Team''" "''c1''"]
    createGroup_round_trip [of "run_ops [CreateGroup ''g1'' ''Team'' ''c1'']" "''g1''"
      "''Other''" "''c2''"]
  by (simp add: registry_defs)

subsection \<open>joinGroup\<close>

text \<open>
  C4. \<open>joinGroup\<close> throws the "not found" error exactly when the group is not stored,
  and succeeds with the caller among the members otherwise. For a client that is a member
  already it returns the stored group and changes nothing. A second call after a successful
  one returns the same group and leaves the whole state of the registry, the member list
  of the group included, as the first call left it.
\<close>

theorem joinGroup_idempotent:
  "(getGroup s gid = None \<longrightarrow>
      joinGroup s gid c = Inl (Error (''Group with ID '' @ gid @ '' not found''))) \<and>
   (\<forall>grp. getGroup s gid = Some grp \<longrightarrow>
      (\<exists>grp' s'. joinGroup s gid c = Inr (grp', s') \<and> c \<in> set (members grp') \<and>
                  getGroup s' gid = Some grp')) \<and>
   (\<forall>grp. getGroup s gid = Some grp \<and> c \<in> set (members grp) \<longrightarrow>
      joinGroup s gid c = Inr (grp, s)) \<and>
   (\<forall>grp s'. joinGroup s gid c = Inr (grp, s') \<longrightarrow> joinGroup s' gid c = Inr (grp, s'))"
  by (auto simp: joinGroup_def getGroup_def Let_def update_conv' split: option.splits if_splits)

theorem joinGroup_idempotent_witness:
  "joinGroup (run_ops []) ''g1'' ''c2'' = Inl (Error ''Group with ID g1 not found'') \<and>
   joinGroup (run_ops [CreateGroup ''g1'' ''Team'' ''c1'']) ''g1'' ''c1'' =
     Inr (\<lparr>id' = ''g1'', name = ''Team'', createdBy = ''c1'', members = [''c1'']\<rparr>,
          run_ops [CreateGroup ''g1'' ''Team'' ''c1'']) \<and>
   joinGroup (run_ops [CreateGroup ''g1'' ''Team'' ''c1'']) ''g1'' ''c2'' =
     Inr (\<lparr>id' = ''g1'', name = ''Team'', createdBy = ''c1'', members = [''c1'', ''c2'']\<rparr>,
          run_ops [CreateGroup ''g1'' ''Team'' ''c1'', JoinGroup ''g1'' ''c2'']) \<and>
   joinGroup (run_ops [CreateGroup ''g1'' ''Team'' ''c1'', JoinGroup ''g1'' ''c2'']) ''g1'' ''c2'' =
     Inr (\<lparr>id' = ''g1'', name = ''Team'', createdBy = ''c1'', members = [''c1'', ''c2'']\<rparr>,
          run_ops [CreateGroup ''g1'' ''Team'' ''c1'', JoinGroup ''g1'' ''c2''])"
  using joinGroup_idempotent [of "run_ops []" "''g1''" "''c2''"]
    joinGroup_idempotent [of "run_ops [CreateGroup ''g1'' ''Team'' ''c1'']" "''g1''" "''c1''"]
    joinGroup_idempotent [of "run_ops [CreateGroup ''g1'' ''Team'' ''c1'']" "''g1''" "''c2''"]
  by (simp add: registry_defs)

subsection \<open>Clients that never registered\<close>

text \<open>
  C10. Neither \<open>createGroup\<close> nor \<open>joinGroup\<close> looks the acting client up among the
  users. A client with no stored user object creates a group whose id is free and becomes
  its only member, and joins any stored group; it stays without a user object, and
  \<open>getGroupMembers\<close> leaves it out: the listing of the new group is empty, and the listing
  of the joined group is what it was before the call.
\<close>

theorem unregistered_can_create_and_join:
  "getUserObject s c = None \<longrightarrow>
     (getGroup s gid = None \<longrightarrow>
        (\<exists>grp s'. createGroup s gid nm c = Inr (grp, s') \<and> members grp = [c] \<and>
                   getGroup s' gid = Some grp \<and> getUserObject s' c = None \<and>
                   getGroupMembers s' gid = [])) \<and>
     (\<forall>grp0. getGroup s gid = Some grp0 \<longrightarrow>
        (\<exists>grp s'. joinGroup s gid c = Inr (grp, s') \<and> c \<in> set (members grp) \<and>
                   getGroup s' gid = Some grp \<and> getUserObject s' c = None \<and>
                   getGroupMembers s' gid = getGroupMembers s gid))"
  by (auto simp: createGroup_def joinGroup_def getGroup_def getUserObject_def getGroupMembers_def
        Let_def update_conv' split: option.splits if_splits)

theorem unregistered_can_create_and_join_witness:
  "getUserObject (run_ops []) ''c1'' = None \<and> getGroup (run_ops []) ''g1'' = None \<and>
   (\<exists>grp s'. createGroup (run_ops []) ''g1'' ''Team'' ''c1'' = Inr (grp, s') \<and>
              members grp = [''c1''] \<and> getGroupMembers s' ''g1'' = []) \<and>
   getUserObject (run_ops [AddUser ''c1'' ''alice'', CreateGroup ''g1'' ''Team'' ''c1'']) ''c2'' = None \<and>
   (\<exists>grp s'. joinGroup (run_ops [AddUser ''c1'' ''alice'', CreateGroup ''g1'' ''Team'' ''c1''])
                ''g1'' ''c2'' = Inr (grp, s') \<and>
              members grp = [''c1'', ''c2''] \<and>
              getGroupMembers s' ''g1'' = [\<lparr>clientId = ''c1'', username = ''alice''\<rparr>])"
  using unregistered_can_create_and_join [of "run_ops []" "''c1''" "''g1''" "''Team''"]
    unregistered_can_create_and_join
      [of "run_ops [AddUser ''c1'' ''alice'', CreateGroup ''g1'' ''Team'' ''c1'']" "''c2''" "''g1''"]
  by (simp add: registry_defs)

subsection \<open>The error replies of the message handlers\<close>

text \<open>
  C6, as the code has it. \<open>handleGroupMessage\<close> checks in this order that the sender has
  a user object, that the group is stored and that the sender is among its members. The
  first check that fails decides the reply: the single delivery is the response to the
  requester, with event \<open>error\<close> and the message "User not found", "Group not found" or
  "You are not a member of this group". In each of these cases nothing is sent to a room
  and the registry is unchanged.
\<close>

theorem handleGroupMessage_errors:
  "(getUserObject s c = None \<longrightarrow>
      handleGroupMessage s gid msg c now =
        ([(Requester, ''error'', ErrorData ''User not found'')], s)) \<and>
   (getUserObject s c \<noteq> None \<and> getGroup s gid = None \<longrightarrow>
      handleGroupMessage s gid msg c now =
        ([(Requester, ''error'', ErrorData ''Group not found'')], s)) \<and>
   (\<forall>grp. getUserObject s c \<noteq> None \<and> getGroup s gid = Some grp \<and> c \<notin> set (members grp) \<longrightarrow>
      handleGroupMessage s gid msg c now =
        ([(Requester, ''error'', ErrorData ''You are not a member of this group'')], s)) \<and>
   (getUserObject s c = None \<or> getGroup s gid = None \<or>
    (\<exists>grp. getGroup s gid = Some grp \<and> c \<notin> set (members grp)) \<longrightarrow>
      snd (handleGroupMessage s gid msg c now) = s \<and>
      (\<exists>m. fst (handleGroupMessage s gid msg c now) = [(Requester, ''error'', ErrorData m)]) \<and>
      (\<forall>room e d. (To room, e, d) \<notin> set (fst (handleGroupMessage s gid msg c now))))"
  by (auto simp: handleGroupMessage_def split: option.splits)

theorem handleGroupMessage_errors_witness:
  "getUserObject (run_ops [AddUser ''c1'' ''alice'', CreateGroup ''g1'' ''Team'' ''c1'']) ''c3'' = None \<and>
   handleGroupMessage (run_ops [AddUser ''c1'' ''alice'', CreateGroup ''g1'' ''Team'' ''c1''])
       ''g1'' ''hi'' ''c3'' ''t0'' =
     ([(Requester, ''error'', ErrorData ''User not found'')],
      run_ops [AddUser ''c1'' ''alice'', CreateGroup ''g1'' ''Team'' ''c1'']) \<and>
   handleGroupMessage (run_ops [AddUser ''c3'' ''carol'']) ''g1'' ''hi'' ''c3'' ''t0'' =
     ([(Requester, ''error'', ErrorData ''Group not found'')], run_ops [AddUser ''c3'' ''carol'']) \<and>
   handleGroupMessage
       (run_ops [AddUser ''c3'' ''carol'', CreateGroup ''g1'' ''Team'' ''c1'']) ''g1'' ''hi'' ''c3'' ''t0'' =
     ([(Requester, ''error'', ErrorData ''You are not a member of this group'')],
      run_ops [AddUser ''c3'' ''carol'', CreateGroup ''g1'' ''Team'' ''c1''])"
  using handleGroupMessage_errors
      [of "run_ops [AddUser ''c1'' ''alice'', CreateGroup ''g1'' ''Team'' ''c1'']" "''c3''" "''g1''"
        "''hi''" "''t0''"]
    handleGroupMessage_errors [of "run_ops [AddUser ''c3'' ''carol'']" "''c3''" "''g1''" "''hi''" "''t0''"]
    handleGroupMessage_errors
      [of "run_ops [AddUser ''c3'' ''carol'', CreateGroup ''g1'' ''Team'' ''c1'']" "''c3''" "''g1''"
        "''hi''" "''t0''"]
  by (simp add: registry_defs)

text \<open>
  The reply to a sender without a user object is not "Sender not found": for the
  unregistered client \<open>c3\<close> and the stored group \<open>g1\<close> no delivery carries that message.
\<close>

theorem handleGroupMessage_sender_message_counterexample:
  "getUserObject (run_ops [AddUser ''c1'' ''alice'', CreateGroup ''g1'' ''Team'' ''c1'']) ''c3'' = None \<and>
   (Requester, ''error'', ErrorData ''Sender not found'') \<notin>
     set (fst (handleGroupMessage
                 (run_ops [AddUser ''c1'' ''alice'', CreateGroup ''g1'' ''Team'' ''c1''])
                 ''g1'' ''hi'' ''c3'' ''t0''))"
  by (simp add: registry_defs handleGroupMessage_def)

text \<open>
  C9, as the code has it. \<open>handlePrivateMessage\<close> looks up the sender and the recipient,
  and checks the sender first. A sender without a user object gets the single reply "Sender not found"; a
  registered sender writing to a recipient without a user object gets the single reply
  "Recipient not found". Whenever the sender or the recipient is not registered the reply
  to the requester is the only delivery, so nothing is sent to any connection, and the
  registry is unchanged.
\<close>

theorem handlePrivateMessage_errors:
  "(getUserObject s c = None \<longrightarrow>
      handlePrivateMessage s rcpt msg c now =
        ([(Requester, ''error'', ErrorData ''Sender not found'')], s)) \<and>
   (getUserObject s c \<noteq> None \<and> getUserObject s rcpt = None \<longrightarrow>
      handlePrivateMessage s rcpt msg c now =
        ([(Requester, ''error'', ErrorData ''Recipient not found'')], s)) \<and>
   (getUserObject s c = None \<or> getUserObject s rcpt = None \<longrightarrow>
      snd (handlePrivateMessage s rcpt msg c now) = s \<and>
      (\<exists>m. fst (handlePrivateMessage s rcpt msg c now) = [(Requester, ''error'', ErrorData m)]) \<and>
      (\<forall>room e d. (To room, e, d) \<notin> set (fst (handlePrivateMessage s rcpt msg c now))))"
  by (auto simp: handlePrivateMessage_def Let_def split: option.splits)

theorem handlePrivateMessage_errors_witness:
  "getUserObject (run_ops [AddUser ''c1'' ''alice'']) ''c1'' \<noteq> None \<and>
   getUserObject (run_ops [AddUser ''c1'' ''alice'']) ''c9'' = None \<and>
   handlePrivateMessage (run_ops [AddUser ''c1'' ''alice'']) ''c9'' ''hi'' ''c1'' ''t0'' =
     ([(Requester, ''error'', ErrorData ''Recipient not found'')], run_ops [AddUser ''c1'' ''alice'']) \<and>
   handlePrivateMessage (run_ops [AddUser ''c1'' ''alice'']) ''c1'' ''hi'' ''c9'' ''t0'' =
     ([(Requester, ''error'', ErrorData ''Sender not found'')], run_ops [AddUser ''c1'' ''alice''])"
  using handlePrivateMessage_errors [of "run_ops [AddUser ''c1'' ''alice'']" "''c1''" "''c9''" "''hi''" "''t0''"]
    handlePrivateMessage_errors [of "run_ops [AddUser ''c1'' ''alice'']" "''c9''" "''c1''" "''hi''" "''t0''"]
  by (simp add: registry_defs)

text \<open>
  A message to a recipient without a user object is not always answered with "Recipient
  not found": when the sender \<open>c1\<close> has no user object either, the single reply is
  "Sender not found".
\<close>

theorem handlePrivateMessage_recipient_message_counterexample:
  "getUserObject (run_ops [AddUser ''c2'' ''bob'']) ''c9'' = None \<and>
   getUserObject (run_ops [AddUser ''c2'' ''bob'']) ''c1'' = None \<and>
   (Requester, ''error'', ErrorData ''Recipient not found'') \<notin>
     set (fst (handlePrivateMessage (run_ops [AddUser ''c2'' ''bob'']) ''c9'' ''hi'' ''c1'' ''t0'')) \<and>
   fst (handlePrivateMessage (run_ops [AddUser ''c2'' ''bob'']) ''c9'' ''hi'' ''c1'' ''t0'') =
     [(Requester, ''error'', ErrorData ''Sender not found'')]"
  by (simp add: registry_defs handlePrivateMessage_def)

subsection \<open>leaveGroup\<close>

text \<open>
  C8, as the code has it. \<open>leaveGroup\<close> never throws. When the group is not stored the
  state is unchanged. When it is stored, the users are untouched, every other group and
  the index of every other client are as before, the group keeps its members other than
  the client, or is deleted when none is left, and the index of the client is its old
  list (empty when it had no entry) without the group. So for a client that is not a
  member, when the group has a member and the index of the client does not name the group,
  every group and every index reads as before; the stored state itself is the same when
  the client has an index entry.
\<close>

theorem leaveGroup_effect:
  "(getGroup s gid = None \<longrightarrow> leaveGroup s gid c = s) \<and>
   (\<forall>grp. getGroup s gid = Some grp \<longrightarrow>
      users (leaveGroup s gid c) = users s \<and>
      userObjects (leaveGroup s gid c) = userObjects s \<and>
      getGroup (leaveGroup s gid c) gid =
        (if filter (\<lambda>i. i \<noteq> c) (members grp) = [] then None
         else Some (grp\<lparr>members := filter (\<lambda>i. i \<noteq> c) (members grp)\<rparr>)) \<and>
      (\<forall>g'. g' \<noteq> gid \<longrightarrow> getGroup (leaveGroup s gid c) g' = getGroup s g') \<and>
      index_of (leaveGroup s gid c) c = filter (\<lambda>i. i \<noteq> gid) (index_of s c) \<and>
      (\<forall>c'. c' \<noteq> c \<longrightarrow> index_of (leaveGroup s gid c) c' = index_of s c')) \<and>
   (\<forall>grp. getGroup s gid = Some grp \<and> c \<notin> set (members grp) \<and> members grp \<noteq> [] \<and>
          gid \<notin> set (index_of s c) \<longrightarrow>
      (\<forall>g'. getGroup (leaveGroup s gid c) g' = getGroup s g') \<and>
      (\<forall>c'. index_of (leaveGroup s gid c) c' = index_of s c') \<and>
      (map_of (clientGroups s) c \<noteq> None \<longrightarrow> leaveGroup s gid c = s))"
proof -
  have absent: "getGroup s gid = None \<longrightarrow> leaveGroup s gid c = s"
    by (simp add: leaveGroup_absent)
  have general: "\<forall>grp. getGroup s gid = Some grp \<longrightarrow>
      users (leaveGroup s gid c) = users s \<and>
      userObjects (leaveGroup s gid c) = userObjects s \<and>
      getGroup (leaveGroup s gid c) gid =
        (if filter (\<lambda>i. i \<noteq> c) (members grp) = [] then None
         else Some (grp\<lparr>members := filter (\<lambda>i. i \<noteq> c) (members grp)\<rparr>)) \<and>
      (\<forall>g'. g' \<noteq> gid \<longrightarrow> getGroup (leaveGroup s gid c) g' = getGroup s g') \<and>
      index_of (leaveGroup s gid c) c = filter (\<lambda>i. i \<noteq> gid) (index_of s c) \<and>
      (\<forall>c'. c' \<noteq> c \<longrightarrow> index_of (leaveGroup s gid c) c' = index_of s c')"
    by (simp add: users_leaveGroup getGroup_leaveGroup index_of_leaveGroup)
  have non_member: "\<forall>grp. getGroup s gid = Some grp \<and> c \<notin> set (members grp) \<and> members grp \<noteq> [] \<and>
          gid \<notin> set (index_of s c) \<longrightarrow>
      (\<forall>g'. getGroup (leaveGroup s gid c) g' = getGroup s g') \<and>
      (\<forall>c'. index_of (leaveGroup s gid c) c' = index_of s c') \<and>
      (map_of (clientGroups s) c \<noteq> None \<longrightarrow> leaveGroup s gid c = s)"
  proof (intro allI impI)
    fix grp
    assume a: "getGroup s gid = Some grp \<and> c \<notin> set (members grp) \<and> members grp \<noteq> [] \<and>
          gid \<notin> set (index_of s c)"
    then have m: "filter (\<lambda>i. i \<noteq> c) (members grp) = members grp"
      and x: "filter (\<lambda>i. i \<noteq> gid) (index_of s c) = index_of s c"
      by (auto simp add: filter_id_conv)
    have "\<forall>g'. getGroup (leaveGroup s gid c) g' = getGroup s g'"
      using a by (simp add: getGroup_leaveGroup m)
    moreover have "\<forall>c'. index_of (leaveGroup s gid c) c' = index_of s c'"
      using a by (simp add: index_of_leaveGroup x)
    moreover have "map_of (clientGroups s) c \<noteq> None \<longrightarrow> leaveGroup s gid c = s"
      using a by (simp add: leaveGroup_non_member_same)
    ultimately show "(\<forall>g'. getGroup (leaveGroup s gid c) g' = getGroup s g') \<and>
      (\<forall>c'. index_of (leaveGroup s gid c) c' = index_of s c') \<and>
      (map_of (clientGroups s) c \<noteq> None \<longrightarrow> leaveGroup s gid c = s)"
      by blast
  qed
  from absent general non_member show ?thesis
    by blast
qed

theorem leaveGroup_effect_witness:
  "getGroup (run_ops []) ''g1'' = None \<and> leaveGroup (run_ops []) ''g1'' ''c1'' = run_ops [] \<and>
   getGroup (run_ops [CreateGroup ''g1'' ''Team'' ''c1'', JoinGroup ''g1'' ''c2'']) ''g1'' =
     Some \<lparr>id' = ''g1'', name = ''Team'', createdBy = ''c1'', members = [''c1'', ''c2'']\<rparr> \<and>
   getGroup (leaveGroup (run_ops [CreateGroup ''g1'' ''Team'' ''c1'', JoinGroup ''g1'' ''c2''])
               ''g1'' ''c2'') ''g1'' =
     Some \<lparr>id' = ''g1'', name = ''Team'', createdBy = ''c1'', members = [''c1'']\<rparr> \<and>
   index_of (leaveGroup (run_ops [CreateGroup ''g1'' ''Team'' ''c1'', JoinGroup ''g1'' ''c2''])
               ''g1'' ''c2'') ''c2'' = [] \<and>
   getGroup (leaveGroup (run_ops [CreateGroup ''g1'' ''Team'' ''c1'']) ''g1'' ''c1'') ''g1'' = None \<and>
   map_of (clientGroups (run_ops [AddUser ''c3'' ''carol'', CreateGroup ''g1'' ''Team'' ''c1''])) ''c3''
     \<noteq> None \<and>
   leaveGroup (run_ops [AddUser ''c3'' ''carol'', CreateGroup ''g1'' ''Team'' ''c1'']) ''g1'' ''c3'' =
     run_ops [AddUser ''c3'' ''carol'', CreateGroup ''g1'' ''Team'' ''c1'']"
  using leaveGroup_effect [of "run_ops []" "''g1''" "''c1''"]
    leaveGroup_effect
      [of "run_ops [CreateGroup ''g1'' ''Team'' ''c1'', JoinGroup ''g1'' ''c2'']" "''g1''" "''c2''"]
    leaveGroup_effect [of "run_ops [CreateGroup ''g1'' ''Team'' ''c1'']" "''g1''" "''c1''"]
    leaveGroup_effect
      [of "run_ops [AddUser ''c3'' ''carol'', CreateGroup ''g1'' ''Team'' ''c1'']" "''g1''" "''c3''"]
  by (simp add: registry_defs)

text \<open>
  Two calls for a client that is not a member, each on a state that a sequence of
  operations reaches, and each changing the state. In the first the group \<open>g1\<close> has the
  member \<open>c1\<close> and the client \<open>c2\<close> has no index entry: the call stores an empty one. In
  the second \<open>g1\<close> was left without members by \<open>removeUser\<close>: the call deletes it.
\<close>

theorem leaveGroup_non_member_counterexample:
  "getGroup (run_ops [CreateGroup ''g1'' ''Team'' ''c1'']) ''g1'' =
     Some \<lparr>id' = ''g1'', name = ''Team'', createdBy = ''c1'', members = [''c1'']\<rparr> \<and>
   leaveGroup (run_ops [CreateGroup ''g1'' ''Team'' ''c1'']) ''g1'' ''c2'' \<noteq>
     run_ops [CreateGroup ''g1'' ''Team'' ''c1''] \<and>
   getGroup (run_ops [AddUser ''c1'' ''alice'', CreateGroup ''g1'' ''Team'' ''c1'', RemoveUser ''c1''])
       ''g1'' =
     Some \<lparr>id' = ''g1'', name = ''Team'', createdBy = ''c1'', members = []\<rparr> \<and>
   getGroup
       (leaveGroup
          (run_ops [AddUser ''c1'' ''alice'', CreateGroup ''g1'' ''Team'' ''c1'', RemoveUser ''c1''])
          ''g1'' ''c2'') ''g1'' = None"
  by (simp add: registry_defs)

subsection \<open>Where the code leaves the invariants\<close>

text \<open>
  C1. \<open>addUser\<close> stores an empty index entry without looking at the groups, so it breaks
  the agreement of the two sides for a client that is in a group. After register, create,
  register again, the group \<open>g1\<close> has the member \<open>c1\<close> and the index of \<open>c1\<close> is empty;
  a disconnect of \<open>c1\<close> then leaves \<open>c1\<close> among the members of \<open>g1\<close> for good.
\<close>

theorem addUser_breaks_membership_index:
  "getGroup (run_ops [AddUser ''c1'' ''alice'', CreateGroup ''g1'' ''Team'' ''c1'',
                      AddUser ''c1'' ''al'']) ''g1'' =
     Some \<lparr>id' = ''g1'', name = ''Team'', createdBy = ''c1'', members = [''c1'']\<rparr> \<and>
   index_of (run_ops [AddUser ''c1'' ''alice'', CreateGroup ''g1'' ''Team'' ''c1'',
                      AddUser ''c1'' ''al'']) ''c1'' = [] \<and>
   getGroup (run_ops [AddUser ''c1'' ''alice'', CreateGroup ''g1'' ''Team'' ''c1'',
                      AddUser ''c1'' ''al'', RemoveUser ''c1'']) ''g1'' =
     Some \<lparr>id' = ''g1'', name = ''Team'', createdBy = ''c1'', members = [''c1'']\<rparr>"
  by (simp add: registry_defs)

text \<open>
  C7. Registering again replaces the name and leaves the groups alone, but the index entry
  of the client is reset: \<open>c1\<close>, a member of \<open>g1\<close> with the index \<open>[g1]\<close>, has the new
  name, is still a member, and has an empty index and an empty \<open>getUserGroups\<close> after the
  second \<open>addUser\<close>.
\<close>

theorem addUser_again_resets_index:
  "index_of (run_ops [AddUser ''c1'' ''alice'', CreateGroup ''g1'' ''Team'' ''c1'']) ''c1'' = [''g1''] \<and>
   getUserGroups (run_ops [AddUser ''c1'' ''alice'', CreateGroup ''g1'' ''Team'' ''c1'']) ''c1'' =
     [\<lparr>id' = ''g1'', name = ''Team'', createdBy = ''c1'', members = [''c1'']\<rparr>] \<and>
   getUser (addUser (run_ops [AddUser ''c1'' ''alice'', CreateGroup ''g1'' ''Team'' ''c1''])
              ''c1'' ''al'') ''c1'' = Some ''al'' \<and>
   getGroup (addUser (run_ops [AddUser ''c1'' ''alice'', CreateGroup ''g1'' ''Team'' ''c1''])
               ''c1'' ''al'') ''g1'' =
     Some \<lparr>id' = ''g1'', name = ''Team'', createdBy = ''c1'', members = [''c1'']\<rparr> \<and>
   index_of (addUser (run_ops [AddUser ''c1'' ''alice'', CreateGroup ''g1'' ''Team'' ''c1''])
               ''c1'' ''al'') ''c1'' = [] \<and>
   getUserGroups (addUser (run_ops [AddUser ''c1'' ''alice'', CreateGroup ''g1'' ''Team'' ''c1''])
                    ''c1'' ''al'') ''c1'' = []"
  by (simp add: registry_defs)

text \<open>
  C2. \<open>removeUser\<close> filters the member lists and deletes no group: when the only member
  of \<open>g1\<close> is removed, \<open>g1\<close> stays stored with no members. \<open>leaveGroup\<close> in the same
  state deletes it.
\<close>

theorem removeUser_keeps_empty_group:
  "getGroup (run_ops [AddUser ''c1'' ''alice'', CreateGroup ''g1'' ''Team'' ''c1'', RemoveUser ''c1''])
     ''g1'' =
     Some \<lparr>id' = ''g1'', name = ''Team'', createdBy = ''c1'', members = []\<rparr> \<and>
   getGroup (run_ops [AddUser ''c1'' ''alice'', CreateGroup ''g1'' ''Team'' ''c1'',
                      LeaveGroup ''g1'' ''c1'']) ''g1'' = None"
  by (simp add: registry_defs)

text \<open>
  C3. Since the group survives the disconnect of its only member, creating a group with
  the same id afterwards throws the "already exists" error, and the handler answers the
  requester with it.
\<close>

theorem createGroup_after_disconnect_fails:
  "snd (handleDisconnect (run_ops [AddUser ''c1'' ''alice'', CreateGroup ''g1'' ''Team'' ''c1'']) ''c1'') =
     run_ops [AddUser ''c1'' ''alice'', CreateGroup ''g1'' ''Team'' ''c1'', RemoveUser ''c1''] \<and>
   createGroup
     (run_ops [AddUser ''c1'' ''alice'', CreateGroup ''g1'' ''Team'' ''c1'', RemoveUser ''c1''])
     ''g1'' ''Team'' ''c2'' =
     Inl (Error ''Group with ID g1 already exists'') \<and>
   fst (handleCreateGroup
          (run_ops [AddUser ''c1'' ''alice'', CreateGroup ''g1'' ''Team'' ''c1'', RemoveUser ''c1''])
          ''g1'' ''Team'' ''c2'') =
     [(Requester, ''error'', ErrorData ''Group with ID g1 already exists'')]"
  by (simp add: registry_defs handleDisconnect_def handleCreateGroup_def)

end
